theory Spec2Isabelle
  imports Complex_Main
begin

section \<open>JavaScript strings and errors\<close>

text \<open>
  A JavaScript string is the sequence of its UTF-16 code units; a code unit is a number
  below 65536.  \<open>js\<close> embeds an ASCII literal of the source.
\<close>

type_synonym jschar = nat
type_synonym jsstring = "jschar list"

definition js :: "string \<Rightarrow> jsstring" where
  "js s = map of_char s"

text \<open>A thrown \<open>Error\<close> object: its \<open>name\<close> and its \<open>message\<close>.\<close>

record js_error =
  err_name :: jsstring
  err_message :: jsstring

definition Error :: "jsstring \<Rightarrow> js_error" where
  "Error msg = \<lparr>err_name = js ''Error'', err_message = msg\<rparr>"

section \<open>Regular expressions\<close>

text \<open>
  The patterns of the two source files use a small part of the RegExp language: literal
  text, character classes, the quantifiers \<open>?\<close>, \<open>*\<close>, \<open>+\<close>, \<open>{n,}\<close> and the lazy
  \<open>*?\<close> applied to one character class, a group of literal alternatives, and a
  backreference to such a group.  A pattern is the list of these items in order; a capture
  group of the source always wraps exactly one item, so a match is reported as the list
  of the texts matched by the items, and group \<open>$n\<close> is read at its item's position.

  A class is a list of code-unit ranges, or the complement of one.
\<close>

datatype cls = Set "(jschar \<times> jschar) list" | NotSet "(jschar \<times> jschar) list"

fun in_ranges :: "(jschar \<times> jschar) list \<Rightarrow> jschar \<Rightarrow> bool" where
  "in_ranges [] x = False"
| "in_ranges ((lo, hi) # rs) x = ((lo \<le> x \<and> x \<le> hi) \<or> in_ranges rs x)"

text \<open>
  \<open>Canonicalize\<close> of the language specification under the \<open>i\<close> flag (without \<open>u\<close>):
  the patterns' letters are ASCII, and a code unit from 128 on never canonicalizes to an
  ASCII one, so only the ASCII letters fold.
\<close>

definition ascii_upper :: "jschar \<Rightarrow> jschar" where
  "ascii_upper x = (if 97 \<le> x \<and> x \<le> 122 then x - 32 else x)"

definition ascii_lower :: "jschar \<Rightarrow> jschar" where
  "ascii_lower x = (if 65 \<le> x \<and> x \<le> 90 then x + 32 else x)"

definition canonicalize :: "bool \<Rightarrow> jschar \<Rightarrow> jschar" where
  "canonicalize ci x = (if ci then ascii_upper x else x)"

fun in_cls :: "bool \<Rightarrow> cls \<Rightarrow> jschar \<Rightarrow> bool" where
  "in_cls ci (Set rs) x =
     (in_ranges rs x \<or> (ci \<and> (in_ranges rs (ascii_upper x) \<or> in_ranges rs (ascii_lower x))))"
| "in_cls ci (NotSet rs) x =
     (\<not> (in_ranges rs x \<or> (ci \<and> (in_ranges rs (ascii_upper x) \<or> in_ranges rs (ascii_lower x)))))"

definition chars :: "string \<Rightarrow> (jschar \<times> jschar) list" where
  "chars s = map (\<lambda>c. (of_char c, of_char c)) s"

definition anychar :: cls where "anychar = NotSet []"
definition whitespace :: cls where
  "whitespace = Set [(9, 13), (32, 32), (160, 160), (0x1680, 0x1680), (0x2000, 0x200A),
                     (0x2028, 0x2029), (0x202F, 0x202F), (0x205F, 0x205F), (0x3000, 0x3000),
                     (0xFEFF, 0xFEFF)]"
definition dot :: cls where "dot = NotSet [(10, 10), (13, 13), (0x2028, 0x2029)]"
definition digit :: cls where "digit = Set [(48, 57)]"

text \<open>
  \<open>Lit\<close> literal text; \<open>One c\<close> the class \<open>c\<close>; \<open>Opt c\<close> is \<open>c?\<close>; \<open>Rep n c\<close> is
  \<open>c{n,}\<close> (so \<open>c*\<close> is \<open>Rep 0 c\<close> and \<open>c+\<close> is \<open>Rep 1 c\<close>); \<open>Lazy c\<close> is \<open>c*?\<close>;
  \<open>Alt ls\<close> is the group \<open>(l1|l2|...)\<close>; \<open>BackRef k\<close> refers to the text matched by
  item \<open>k\<close>.
\<close>

datatype item =
    Lit jsstring
  | One cls
  | Opt cls
  | Rep nat cls
  | Lazy cls
  | Alt "jsstring list"
  | BackRef nat

definition lit_at :: "bool \<Rightarrow> jsstring \<Rightarrow> jsstring \<Rightarrow> bool" where
  "lit_at ci l s =
     (length l \<le> length s \<and> map (canonicalize ci) (take (length l) s) = map (canonicalize ci) l)"

fun item_weight :: "item \<Rightarrow> nat" where
  "item_weight (Alt ls) = Suc (length ls)"
| "item_weight (Lit l) = 1"
| "item_weight (One c) = 1"
| "item_weight (Opt c) = 1"
| "item_weight (Rep n c) = 1"
| "item_weight (Lazy c) = 1"
| "item_weight (BackRef k) = 1"

text \<open>
  The backtracking matcher, anchored at the start of \<open>s\<close>: the alternatives are tried
  in the order the language prescribes (greedy: longest first; lazy: shortest first;
  alternatives: left to right) and the first complete match wins.  \<open>ps\<close> holds the
  texts of the items matched so far, \<open>acc\<close> the text taken so far by the quantifier at
  the head.  The result is the texts of all items and the rest of the input.
\<close>

function rmatch ::
  "bool \<Rightarrow> item list \<Rightarrow> jsstring list \<Rightarrow> jsstring \<Rightarrow> jsstring \<Rightarrow> (jsstring list \<times> jsstring) option"
where
  "rmatch ci [] ps acc s = Some (ps, s)"
| "rmatch ci (Lit l # its) ps acc s =
     (if lit_at ci l s
      then rmatch ci its (ps @ [take (length l) s]) [] (drop (length l) s) else None)"
| "rmatch ci (One c # its) ps acc [] = None"
| "rmatch ci (One c # its) ps acc (x # xs) =
     (if in_cls ci c x then rmatch ci its (ps @ [[x]]) [] xs else None)"
| "rmatch ci (Opt c # its) ps acc [] = rmatch ci its (ps @ [[]]) [] []"
| "rmatch ci (Opt c # its) ps acc (x # xs) =
     (if in_cls ci c x then
        (case rmatch ci its (ps @ [[x]]) [] xs of
           Some r \<Rightarrow> Some r
         | None \<Rightarrow> rmatch ci its (ps @ [[]]) [] (x # xs))
      else rmatch ci its (ps @ [[]]) [] (x # xs))"
| "rmatch ci (Rep n c # its) ps acc [] =
     (if n = 0 then rmatch ci its (ps @ [acc]) [] [] else None)"
| "rmatch ci (Rep n c # its) ps acc (x # xs) =
     (if in_cls ci c x then
        (case rmatch ci (Rep (n - 1) c # its) ps (acc @ [x]) xs of
           Some r \<Rightarrow> Some r
         | None \<Rightarrow> if n = 0 then rmatch ci its (ps @ [acc]) [] (x # xs) else None)
      else if n = 0 then rmatch ci its (ps @ [acc]) [] (x # xs) else None)"
| "rmatch ci (Lazy c # its) ps acc [] = rmatch ci its (ps @ [acc]) [] []"
| "rmatch ci (Lazy c # its) ps acc (x # xs) =
     (case rmatch ci its (ps @ [acc]) [] (x # xs) of
        Some r \<Rightarrow> Some r
      | None \<Rightarrow> if in_cls ci c x then rmatch ci (Lazy c # its) ps (acc @ [x]) xs else None)"
| "rmatch ci (Alt [] # its) ps acc s = None"
| "rmatch ci (Alt (l # ls) # its) ps acc s =
     (case (if lit_at ci l s
            then rmatch ci its (ps @ [take (length l) s]) [] (drop (length l) s) else None) of
        Some r \<Rightarrow> Some r
      | None \<Rightarrow> rmatch ci (Alt ls # its) ps acc s)"
| "rmatch ci (BackRef k # its) ps acc s =
     (if lit_at ci (if k < length ps then ps ! k else []) s
      then rmatch ci its (ps @ [take (length (if k < length ps then ps ! k else [])) s]) []
             (drop (length (if k < length ps then ps ! k else [])) s)
      else None)"
  by pat_completeness auto
termination
  by (relation "measures [\<lambda>(ci, its, ps, acc, s). sum_list (map item_weight its),
                          \<lambda>(ci, its, ps, acc, s). length s]") auto

text \<open>
  A regular expression: the \<open>i\<close> flag and the items.  \<open>rsearch\<close> finds the leftmost
  match: the text before it, the items' texts, the text after it.
\<close>

type_synonym regex = "bool \<times> item list"

fun rsearch :: "regex \<Rightarrow> jsstring \<Rightarrow> jsstring \<Rightarrow> (jsstring \<times> jsstring list \<times> jsstring) option" where
  "rsearch re pre [] =
     (case rmatch (fst re) (snd re) [] [] [] of
        Some (ps, rest) \<Rightarrow> Some (pre, ps, rest)
      | None \<Rightarrow> None)"
| "rsearch re pre (x # xs) =
     (case rmatch (fst re) (snd re) [] [] (x # xs) of
        Some (ps, rest) \<Rightarrow> Some (pre, ps, rest)
      | None \<Rightarrow> rsearch re (pre @ [x]) xs)"

fun pending :: "item list \<Rightarrow> jsstring \<Rightarrow> jsstring" where
  "pending (Rep n c # its) acc = acc"
| "pending (Lazy c # its) acc = acc"
| "pending its acc = []"

lemma pending_Nil [simp]: "pending its [] = []"
  by (cases "(its, []::jsstring)" rule: pending.cases) auto

lemma rmatch_concat:
  "rmatch ci its ps acc s = Some (ps', rest) \<Longrightarrow> concat ps @ pending its acc @ s = concat ps' @ rest"
proof (induction ci its ps acc s arbitrary: ps' rest rule: rmatch.induct)
  case (2 ci l its ps acc s)
  then show ?case by (auto split: if_splits simp: lit_at_def)
next
  case (12 ci l ls its ps acc s)
  then show ?case by (auto split: if_splits option.splits simp: lit_at_def)
next
  case (13 ci k its ps acc s)
  then show ?case by (auto split: if_splits simp: lit_at_def)
qed (auto split: if_splits option.splits)

lemma rmatch_length:
  "rmatch ci its ps acc s = Some (ps', rest) \<Longrightarrow> length ps + length its = length ps'"
  by (induction ci its ps acc s arbitrary: ps' rest rule: rmatch.induct)
     (auto split: if_splits option.splits)

lemma rsearch_concat:
  "rsearch re pre s = Some (pre', ps, rest) \<Longrightarrow> pre @ s = pre' @ concat ps @ rest"
  by (induction re pre s rule: rsearch.induct)
     (auto split: option.splits dest!: rmatch_concat)

text \<open>
  \<open>String.prototype.replace\<close> and \<open>String.prototype.match\<close> with a \<open>g\<close> pattern: all
  matches from left to right, the search resuming after each match (one code unit further
  after an empty match).
\<close>

function replace_all :: "regex \<Rightarrow> (jsstring list \<Rightarrow> jsstring) \<Rightarrow> jsstring \<Rightarrow> jsstring" where
  "replace_all re f s =
     (case rsearch re [] s of
        None \<Rightarrow> s
      | Some (pre, ps, rest) \<Rightarrow>
          if concat ps = [] then
            (case rest of
               [] \<Rightarrow> pre @ f ps
             | c # cs \<Rightarrow> pre @ f ps @ c # replace_all re f cs)
          else pre @ f ps @ replace_all re f rest)"
  by pat_completeness auto
termination
proof (relation "measure (\<lambda>(re, f, s). length s)", goal_cases)
  case 1
  show ?case by simp
next
  case (2 re f s x2 pre y ps rest c cs)
  then have "s = pre @ concat ps @ rest" using rsearch_concat [of re "[]" s pre ps rest] by simp
  with 2 show ?case by simp
next
  case (3 re f s x2 pre y ps rest)
  then have "s = pre @ concat ps @ rest" using rsearch_concat [of re "[]" s pre ps rest] by simp
  with 3 show ?case by (cases "concat ps") auto
qed

declare replace_all.simps [simp del]

function match_all :: "regex \<Rightarrow> jsstring \<Rightarrow> jsstring list list" where
  "match_all re s =
     (case rsearch re [] s of
        None \<Rightarrow> []
      | Some (pre, ps, rest) \<Rightarrow>
          if concat ps = [] then
            (case rest of
               [] \<Rightarrow> [ps]
             | c # cs \<Rightarrow> ps # match_all re cs)
          else ps # match_all re rest)"
  by pat_completeness auto
termination
proof (relation "measure (\<lambda>(re, s). length s)", goal_cases)
  case 1
  show ?case by simp
next
  case (2 re s x2 pre y ps rest c cs)
  then have "s = pre @ concat ps @ rest" using rsearch_concat [of re "[]" s pre ps rest] by simp
  with 2 show ?case by simp
next
  case (3 re s x2 pre y ps rest)
  then have "s = pre @ concat ps @ rest" using rsearch_concat [of re "[]" s pre ps rest] by simp
  with 3 show ?case by (cases "concat ps") auto
qed

declare match_all.simps [simp del]

section \<open>String operations of the platform\<close>

text \<open>\<open>trim\<close> removes the white space and line terminators that \<open>\s\<close> matches.\<close>

definition is_space :: "jschar \<Rightarrow> bool" where
  "is_space x = in_cls False whitespace x"

definition trim :: "jsstring \<Rightarrow> jsstring" where
  "trim s = rev (dropWhile is_space (rev (dropWhile is_space s)))"

fun split_from :: "jschar \<Rightarrow> jsstring \<Rightarrow> jsstring \<Rightarrow> jsstring list" where
  "split_from sep cur [] = [cur]"
| "split_from sep cur (x # xs) =
     (if x = sep then cur # split_from sep [] xs else split_from sep (cur @ [x]) xs)"

text \<open>\<open>s.split("\n")\<close> and \<open>lines.join(sep)\<close>.\<close>

definition split_lines :: "jsstring \<Rightarrow> jsstring list" where
  "split_lines s = split_from 10 [] s"

fun join :: "jsstring \<Rightarrow> jsstring list \<Rightarrow> jsstring" where
  "join sep [] = []"
| "join sep [l] = l"
| "join sep (l # m # ls) = l @ sep @ join sep (m # ls)"

definition startsWith :: "jsstring \<Rightarrow> jsstring \<Rightarrow> bool" where
  "startsWith s p = (take (length p) s = p)"

fun js_includes :: "jsstring \<Rightarrow> jsstring \<Rightarrow> bool" where
  "js_includes [] p = (p = [])"
| "js_includes (x # xs) p = (startsWith (x # xs) p \<or> js_includes xs p)"

text \<open>A non-negative integer in a template literal: its decimal digits.\<close>

fun dec :: "nat \<Rightarrow> jsstring" where
  "dec n = (if n < 10 then [48 + n] else dec (n div 10) @ [48 + n mod 10])"

declare dec.simps [simp del]

subsection \<open>parseInt and String.fromCharCode\<close>

fun digit_value :: "jschar \<Rightarrow> nat" where
  "digit_value x =
     (if 48 \<le> x \<and> x \<le> 57 then x - 48
      else if 97 \<le> x \<and> x \<le> 102 then x - 87
      else if 65 \<le> x \<and> x \<le> 70 then x - 55 else 0)"

definition parse_digits :: "nat \<Rightarrow> jsstring \<Rightarrow> nat" where
  "parse_digits radix s = foldl (\<lambda>n x. n * radix + digit_value x) 0 s"

fun bit_length :: "nat \<Rightarrow> nat" where
  "bit_length n = (if n = 0 then 0 else Suc (bit_length (n div 2)))"

declare bit_length.simps [simp del]

text \<open>
  \<open>parseInt\<close> yields a Number: the integer read, rounded to 53 significant bits (to
  nearest, ties to even); \<open>None\<close> stands for \<open>Infinity\<close>.  (For more than 20 decimal
  digits the language lets an implementation round the digits first; the model rounds
  the exact value.)
\<close>

definition to_number :: "nat \<Rightarrow> nat option" where
  "to_number n =
     (if bit_length n \<le> 53 then Some n
      else
        let sh = bit_length n - 53;
            q = n div 2 ^ sh;
            r = n mod 2 ^ sh;
            half = 2 ^ (sh - 1);
            q' = (if half < r \<or> (r = half \<and> odd q) then q + 1 else q)
        in if 2 ^ 1024 \<le> q' * 2 ^ sh then None else Some (q' * 2 ^ sh))"

text \<open>\<open>String.fromCharCode(parseInt(code, radix))\<close> for a string of digits: \<open>ToUint16\<close>.\<close>

definition fromCharCode_parseInt :: "nat \<Rightarrow> jsstring \<Rightarrow> jsstring" where
  "fromCharCode_parseInt radix code =
     (case to_number (parse_digits radix code) of
        None \<Rightarrow> [0]
      | Some v \<Rightarrow> [v mod 65536])"

subsection \<open>UTF-8 and the URI functions\<close>

definition is_high :: "jschar \<Rightarrow> bool" where
  "is_high x = (0xD800 \<le> x \<and> x \<le> 0xDBFF)"

definition is_low :: "jschar \<Rightarrow> bool" where
  "is_low x = (0xDC00 \<le> x \<and> x \<le> 0xDFFF)"

definition unit_bytes :: "jschar \<Rightarrow> nat" where
  "unit_bytes x = (if x < 0x80 then 1 else if x < 0x800 then 2 else 3)"

text \<open>
  The length of a string's UTF-8 encoding (\<open>Buffer.byteLength\<close>): a surrogate pair is
  one code point of four bytes, a lone surrogate is replaced by U+FFFD, three bytes.
\<close>

fun utf8_len :: "jsstring \<Rightarrow> nat" where
  "utf8_len [] = 0"
| "utf8_len [x] = unit_bytes x"
| "utf8_len (x # y # r) =
     (if is_high x \<and> is_low y then 4 + utf8_len r else unit_bytes x + utf8_len (y # r))"


















section \<open>The network and the timer\<close>

text \<open>
  What \<open>fetch\<close> hands back: a response (status line, the \<open>content-type\<close> header if
  present, and the outcome of reading the body with \<open>response.text()\<close>) or a rejection.
\<close>

record response =
  status :: nat
  statusText :: jsstring
  contentType :: "jsstring option"
  body :: "js_error + jsstring"

datatype fetch_outcome = Resolves response | Rejects js_error

text \<open>
  The environment of one operation: \<open>net k url\<close> is the outcome of the \<open>k\<close>-th call of
  \<open>fetch\<close> (counted from 0) when it asks for \<open>url\<close>; \<open>random k\<close> is the value of the
  \<open>k\<close>-th call of \<open>Math.random()\<close>.  The trace records the requests issued and the
  delays handed to \<open>setTimeout\<close>, in milliseconds, in order.
\<close>

record env =
  net :: "nat \<Rightarrow> jsstring \<Rightarrow> fetch_outcome"
  random :: "nat \<Rightarrow> real"

record trace =
  requests :: "jsstring list"
  draws :: nat
  waits :: "real list"

definition trace0 :: trace where
  "trace0 = \<lparr>requests = [], draws = 0, waits = []\<rparr>"

definition ok :: "response \<Rightarrow> bool" where
  "ok r = (200 \<le> status r \<and> status r \<le> 299)"

subsection \<open>fetchWithRetry (web-read.ts and web-search.ts hold the same text)\<close>

function fetchLoop ::
  "env \<Rightarrow> jsstring \<Rightarrow> nat \<Rightarrow> nat \<Rightarrow> js_error option \<Rightarrow> trace \<Rightarrow> (js_error + response) \<times> trace"
where
  "fetchLoop e url maxRetries attempt lastError t =
     (if attempt < maxRetries then
        (case net e (length (requests t)) url of
           Resolves r \<Rightarrow>
             if status r = 429 then
               fetchLoop e url maxRetries (attempt + 1) lastError
                 (t\<lparr>requests := requests t @ [url], draws := draws t + 1,
                    waits := waits t @ [2 ^ attempt * 1000 + random e (draws t) * 1000]\<rparr>)
             else (Inr r, t\<lparr>requests := requests t @ [url]\<rparr>)
         | Rejects err \<Rightarrow>
             fetchLoop e url maxRetries (attempt + 1) (Some err)
               (t\<lparr>requests := requests t @ [url],
                  waits := waits t @ (if attempt < maxRetries - 1 then [2 ^ attempt * 500] else [])\<rparr>))
      else (Inl (case lastError of Some err \<Rightarrow> err | None \<Rightarrow> Error (js ''Max retries exceeded'')), t))"
  by pat_completeness auto
termination
  by (relation "measure (\<lambda>(e, url, maxRetries, attempt, lastError, t). maxRetries - attempt)") auto

declare fetchLoop.simps [simp del]

definition fetchWithRetry :: "env \<Rightarrow> jsstring \<Rightarrow> nat \<Rightarrow> trace \<Rightarrow> (js_error + response) \<times> trace" where
  "fetchWithRetry e url maxRetries t = fetchLoop e url maxRetries 0 None t"

text \<open>An outcome after which the loop goes round again: status 429, or a rejection.\<close>

definition retried :: "fetch_outcome \<Rightarrow> bool" where
  "retried out = (case out of Resolves r \<Rightarrow> status r = 429 | Rejects err \<Rightarrow> True)"

section \<open>web-read.ts: converting markup\<close>

definition lit :: "string \<Rightarrow> item" where
  "lit s = Lit (js s)"

definition notc :: "string \<Rightarrow> cls" where
  "notc s = NotSet (chars s)"

definition onec :: "string \<Rightarrow> cls" where
  "onec s = Set (chars s)"

text \<open>\<open>s.replace(/p/g, r)\<close> and \<open>s.replace(/p/gi, r)\<close> for literal \<open>p\<close> and \<open>r\<close>.\<close>

definition replace_lit :: "bool \<Rightarrow> string \<Rightarrow> jsstring \<Rightarrow> jsstring \<Rightarrow> jsstring" where
  "replace_lit ci p r s = replace_all (ci, [lit p]) (\<lambda>ps. r) s"

text \<open>A chain of rewrite_chain of the whole string, applied first to last.\<close>

definition rewrite_chain :: "(jsstring \<Rightarrow> jsstring) list \<Rightarrow> jsstring \<Rightarrow> jsstring" where
  "rewrite_chain fs s = fold (\<lambda>f t. f t) fs s"

text \<open>
  The pattern \<open><tag[^>]*>([\s\S]*?)<\/tag>\<close> with the \<open>i\<close> flag; group 1 is item 3.
\<close>

definition element_re :: "string \<Rightarrow> regex" where
  "element_re tag =
     (True, [lit (''<'' @ tag), Rep 0 (notc ''>''), lit ''>'', Lazy anychar, lit (''</'' @ tag @ ''>'')])"

definition decodeEntities :: "jsstring \<Rightarrow> jsstring" where
  "decodeEntities html =
     rewrite_chain
       [replace_lit False ''&amp;'' (js ''&''),
        replace_lit False ''&lt;'' (js ''<''),
        replace_lit False ''&gt;'' (js ''>''),
        replace_lit False ''&quot;'' [34],
        replace_lit False ''&#39;'' [39],
        replace_lit False ''&nbsp;'' (js '' ''),
        replace_all (False, [lit ''&#'', Rep 1 digit, lit '';''])
          (\<lambda>ps. fromCharCode_parseInt 10 (ps ! 1)),
        replace_all (False, [lit ''&#x'', Rep 1 (Set [(48, 57), (97, 102), (65, 70)]), lit '';''])
          (\<lambda>ps. fromCharCode_parseInt 16 (ps ! 1))]
       html"

definition tag_re :: regex where
  "tag_re = (False, [lit ''<'', Rep 1 (notc ''>''), lit ''>''])"

definition stripTags :: "jsstring \<Rightarrow> jsstring" where
  "stripTags html = replace_all tag_re (\<lambda>ps. []) html"

definition br_re :: regex where
  "br_re = (True, [lit ''<br'', Rep 0 whitespace, Opt (onec ''/''), lit ''>''])"

definition clean_whitespace :: "jsstring \<Rightarrow> jsstring" where
  "clean_whitespace s =
     trim (replace_all (False, [Rep 3 (Set [(10, 10)])]) (\<lambda>ps. js ''\<newline>\<newline>'')
            (replace_all (False, [Rep 1 (Set [(32, 32), (9, 9)])]) (\<lambda>ps. js '' '') s))"

definition htmlToText :: "jsstring \<Rightarrow> jsstring" where
  "htmlToText html =
     rewrite_chain
       [replace_all (element_re ''script'') (\<lambda>ps. []),
        replace_all (element_re ''style'') (\<lambda>ps. []),
        replace_all (element_re ''nav'') (\<lambda>ps. []),
        replace_all (element_re ''footer'') (\<lambda>ps. []),
        replace_all (element_re ''header'') (\<lambda>ps. []),
        replace_all (element_re ''aside'') (\<lambda>ps. []),
        replace_all br_re (\<lambda>ps. js ''\<newline>''),
        replace_lit True ''</p>'' (js ''\<newline>\<newline>''),
        replace_lit True ''</div>'' (js ''\<newline>''),
        replace_lit True ''</li>'' (js ''\<newline>''),
        replace_lit True ''</tr>'' (js ''\<newline>''),
        replace_lit True ''</td>'' (js '' ''),
        replace_lit True ''</th>'' (js '' ''),
        replace_all (True, [lit ''</h'', One (Set [(49, 54)]), lit ''>'']) (\<lambda>ps. js ''\<newline>\<newline>''),
        stripTags,
        decodeEntities,
        clean_whitespace]
       html"

definition link_re :: regex where
  \<open>link_re =
     (True, [lit ''<a'', Rep 0 (notc ''>''), lit ''href="'', Rep 1 (notc ''"''), lit ''"'',
             Rep 0 (notc ''>''), lit ''>'', Lazy anychar, lit ''</a>''])\<close>

definition link_md :: "jsstring list \<Rightarrow> jsstring" where
  "link_md ps =
     (let linkText = trim (stripTags (ps ! 7)); href = ps ! 3
      in if linkText = [] \<or> startsWith href (js ''javascript:'') then linkText
         else js ''['' @ linkText @ js '']('' @ href @ js '')'')"

definition img_alt_re :: regex where
  \<open>img_alt_re =
     (True, [lit ''<img'', Rep 0 (notc ''>''), lit ''src="'', Rep 1 (notc ''"''), lit ''"'',
             Rep 0 (notc ''>''), lit ''alt="'', Rep 0 (notc ''"''), lit ''"'',
             Rep 0 (notc ''>''), Opt (onec ''/''), lit ''>''])\<close>

definition img_re :: regex where
  \<open>img_re =
     (True, [lit ''<img'', Rep 0 (notc ''>''), lit ''src="'', Rep 1 (notc ''"''), lit ''"'',
             Rep 0 (notc ''>''), Opt (onec ''/''), lit ''>''])\<close>

definition heading_md :: "nat \<Rightarrow> jsstring list \<Rightarrow> jsstring" where
  "heading_md n ps = js ''\<newline>'' @ replicate n 35 @ js '' '' @ trim (stripTags (ps ! 3)) @ js ''\<newline>''"

text \<open>The pattern \<open><(a|b)[^>]*>([\s\S]*?)<\/\1>\<close>; group 1 is item 1, group 2 is item 4.\<close>

definition paired_re :: "string list \<Rightarrow> regex" where
  "paired_re tags =
     (True, [lit ''<'', Alt (map js tags), Rep 0 (notc ''>''), lit ''>'', Lazy anychar,
             lit ''</'', BackRef 1, lit ''>''])"

definition cell_re :: regex where
  "cell_re =
     (True, [lit ''<t'', One (onec ''dh''), Rep 0 (notc ''>''), lit ''>'', Lazy anychar,
             lit ''</t'', One (onec ''dh''), lit ''>''])"

definition blockquote_md :: "jsstring list \<Rightarrow> jsstring" where
  "blockquote_md ps =
     join (js ''\<newline>'') (map (\<lambda>line. js ''> '' @ line) (split_lines (trim (stripTags (ps ! 3)))))
     @ js ''\<newline>''"

definition row_md :: "jsstring list \<Rightarrow> jsstring" where
  "row_md ps =
     js ''| '' @ join (js '' | '') (map (\<lambda>c. trim (stripTags (concat c))) (match_all cell_re (ps ! 3)))
     @ js '' |\<newline>''"

definition table_md :: "jsstring list \<Rightarrow> jsstring" where
  "table_md ps = js ''\<newline>'' @ replace_all (element_re ''tr'') row_md (ps ! 3) @ js ''\<newline>''"

definition htmlToMarkdown :: "jsstring \<Rightarrow> jsstring" where
  "htmlToMarkdown html =
     rewrite_chain
       [replace_all (element_re ''script'') (\<lambda>ps. []),
        replace_all (element_re ''style'') (\<lambda>ps. []),
        replace_all (element_re ''nav'') (\<lambda>ps. []),
        replace_all (element_re ''footer'') (\<lambda>ps. []),
        replace_all (element_re ''aside'') (\<lambda>ps. []),
        replace_all link_re link_md,
        replace_all img_alt_re (\<lambda>ps. js ''!['' @ ps ! 7 @ js '']('' @ ps ! 3 @ js '')''),
        replace_all img_re (\<lambda>ps. js ''![]('' @ ps ! 3 @ js '')''),
        replace_all (element_re ''h1'') (heading_md 1),
        replace_all (element_re ''h2'') (heading_md 2),
        replace_all (element_re ''h3'') (heading_md 3),
        replace_all (element_re ''h4'') (heading_md 4),
        replace_all (element_re ''h5'') (heading_md 5),
        replace_all (element_re ''h6'') (heading_md 6),
        replace_all (paired_re [''strong'', ''b'']) (\<lambda>ps. js ''**'' @ ps ! 4 @ js ''**''),
        replace_all (paired_re [''em'', ''i'']) (\<lambda>ps. js ''*'' @ ps ! 4 @ js ''*''),
        replace_all (element_re ''code'') (\<lambda>ps. [96] @ ps ! 3 @ [96]),
        replace_all (paired_re [''pre''])
          (\<lambda>ps. js ''\<newline>'' @ replicate 3 96 @ js ''\<newline>'' @ ps ! 4 @ js ''\<newline>''
                 @ replicate 3 96 @ js ''\<newline>''),
        replace_all (True, [lit ''<ul'', Rep 0 (notc ''>''), lit ''>'']) (\<lambda>ps. js ''\<newline>''),
        replace_lit True ''</ul>'' (js ''\<newline>''),
        replace_all (True, [lit ''<ol'', Rep 0 (notc ''>''), lit ''>'']) (\<lambda>ps. js ''\<newline>''),
        replace_lit True ''</ol>'' (js ''\<newline>''),
        replace_all (element_re ''li'') (\<lambda>ps. js ''- '' @ ps ! 3 @ js ''\<newline>''),
        replace_all (element_re ''blockquote'') blockquote_md,
        replace_all (element_re ''table'') table_md,
        replace_all br_re (\<lambda>ps. js ''\<newline>''),
        replace_all (element_re ''p'') (\<lambda>ps. js ''\<newline>'' @ ps ! 3 @ js ''\<newline>''),
        replace_lit True ''</div>'' (js ''\<newline>''),
        stripTags,
        decodeEntities,
        clean_whitespace]
       html"

section \<open>truncate.ts\<close>

text \<open>
  Modelled from the spec: \<open>truncateHead\<close>, \<open>formatSize\<close>, \<open>DEFAULT_MAX_BYTES\<close> and
  \<open>DEFAULT_MAX_LINES\<close> are imported from \<open>./truncate.js\<close>, which is not among the
  sources.  The spec (4.5, and the data model's TruncationResult) says: the text is
  bounded by a fixed maximum byte count and a fixed maximum line count; the head is kept
  and the tail dropped once either cap is hit, whichever triggers first; the result
  reports the exact totals before truncation and the exact sizes of the output.  The
  model keeps whole lines: the longest run of leading lines that stays within both caps.
  Bytes are those of the UTF-8 encoding.  The two caps are parameters.
\<close>

record truncation_result =
  content :: jsstring
  truncated :: bool
  totalBytes :: nat
  outputBytes :: nat
  totalLines :: nat
  outputLines :: nat

fun take_fitting :: "nat \<Rightarrow> nat \<Rightarrow> jsstring list \<Rightarrow> jsstring list \<Rightarrow> jsstring list" where
  "take_fitting maxBytes maxLines kept [] = kept"
| "take_fitting maxBytes maxLines kept (l # ls) =
     (if length kept < maxLines \<and> utf8_len (join [10] (kept @ [l])) \<le> maxBytes
      then take_fitting maxBytes maxLines (kept @ [l]) ls
      else kept)"

definition truncateHead :: "nat \<Rightarrow> nat \<Rightarrow> jsstring \<Rightarrow> truncation_result" where
  "truncateHead maxBytes maxLines s =
     (if length (split_lines s) \<le> maxLines \<and> utf8_len s \<le> maxBytes then
        \<lparr>content = s, truncated = False,
         totalBytes = utf8_len s, outputBytes = utf8_len s,
         totalLines = length (split_lines s), outputLines = length (split_lines s)\<rparr>
      else
        \<lparr>content = join [10] (take_fitting maxBytes maxLines [] (split_lines s)),
         truncated = True,
         totalBytes = utf8_len s,
         outputBytes = utf8_len (join [10] (take_fitting maxBytes maxLines [] (split_lines s))),
         totalLines = length (split_lines s),
         outputLines = length (take_fitting maxBytes maxLines [] (split_lines s))\<rparr>)"

section \<open>web-read.ts: locating content\<close>

text \<open>
  \<open>extractBySelector\<close> splices the selector into the source text of a RegExp.  The model
  reads the part of the RegExp syntax the selectors of this file need: ASCII characters
  that stand for themselves, and a bracketed class of such characters (the candidate
  \<open>[role="main"]\<close> of \<open>extractMainContent\<close> is one).  For any other syntax character the
  result is \<open>None\<close>: the selector is outside the model.
\<close>

definition src_plain :: "jschar \<Rightarrow> bool" where
  "src_plain x = (x < 128 \<and> \<not> in_ranges ((92, 92) # chars ''^$.*+?()[]{}|'') x)"

definition class_plain :: "jschar \<Rightarrow> bool" where
  "class_plain x = (x < 128 \<and> \<not> in_ranges ((92, 92) # chars ''^-]'') x)"

fun src_scan :: "(jschar \<times> jschar) list option \<Rightarrow> jsstring \<Rightarrow> item list option" where
  "src_scan None [] = Some []"
| "src_scan (Some m) [] = None"
| "src_scan None (x # xs) =
     (if x = 91 then src_scan (Some []) xs
      else if src_plain x then map_option (\<lambda>its. Lit [x] # its) (src_scan None xs)
      else None)"
| "src_scan (Some m) (x # xs) =
     (if x = 93 then map_option (\<lambda>its. One (Set m) # its) (src_scan None xs)
      else if class_plain x then src_scan (Some (m @ [(x, x)])) xs
      else None)"

definition selector_items :: "jsstring \<Rightarrow> item list option" where
  "selector_items s = src_scan None s"

definition id_pattern :: "jschar \<Rightarrow> item list \<Rightarrow> regex" where
  "id_pattern q ident =
     (True, [lit ''<'', Rep 0 (notc ''>''), Lit (js ''id='' @ [q])] @ ident @
            [Lit [q], Rep 0 (notc ''>''), lit ''>'', Lazy anychar, lit ''</'', Rep 1 (notc ''>''), lit ''>''])"

definition class_pattern :: "item list \<Rightarrow> regex" where
  \<open>class_pattern className =
     (True, [lit ''<'', Rep 0 (notc ''>''), lit ''class="'', Rep 0 (notc ''"'')] @ className @
            [Rep 0 (notc ''"''), lit ''"'', Rep 0 (notc ''>''), lit ''>'', Lazy anychar, lit ''</'',
             Rep 1 (notc ''>''), lit ''>''])\<close>

definition element_pattern :: "item list \<Rightarrow> regex" where
  "element_pattern sel =
     (True, [lit ''<''] @ sel @ [Rep 0 (notc ''>''), lit ''>'', Lazy anychar, lit ''</''] @ sel @ [lit ''>''])"

definition selector_patterns :: "jsstring \<Rightarrow> regex list option" where
  "selector_patterns selector =
     (if startsWith selector (js ''#'') then
        map_option (\<lambda>ident. [id_pattern 34 ident, id_pattern 39 ident]) (selector_items (drop 1 selector))
      else if startsWith selector (js ''.'') then
        map_option (\<lambda>className. [class_pattern className]) (selector_items (drop 1 selector))
      else map_option (\<lambda>sel. [element_pattern sel]) (selector_items selector))"

text \<open>The loop over the patterns: the first one with a match gives all its matches, joined.\<close>

fun first_matches :: "regex list \<Rightarrow> jsstring \<Rightarrow> jsstring" where
  "first_matches [] html = []"
| "first_matches (p # pats) html =
     (case match_all p html of
        [] \<Rightarrow> first_matches pats html
      | m # ms \<Rightarrow> join [10] (map concat (m # ms)))"

definition extractBySelector :: "jsstring \<Rightarrow> jsstring \<Rightarrow> jsstring option" where
  "extractBySelector html selector =
     map_option (\<lambda>pats. first_matches pats html) (selector_patterns selector)"

definition extractTitle :: "jsstring \<Rightarrow> jsstring" where
  "extractTitle html =
     (case rsearch (element_re ''title'') [] html of
        Some (pre, ps, rest) \<Rightarrow> trim (decodeEntities (stripTags (ps ! 3)))
      | None \<Rightarrow>
          (case rsearch (element_re ''h1'') [] html of
             Some (pre, ps, rest) \<Rightarrow> trim (decodeEntities (stripTags (ps ! 3)))
           | None \<Rightarrow> []))"

definition contentSelectors :: "jsstring list" where
  \<open>contentSelectors =
     [js ''article'', js ''[role="main"]'', js ''main'', js ''#content'', js ''#main'',
      js ''.content'', js ''.main'', js ''.article'', js ''.post'']\<close>

text \<open>
  The loop of \<open>extractMainContent\<close> over the candidates: \<open>Some (Some c)\<close> when a candidate
  was returned, \<open>Some None\<close> when the loop ran to its end.
\<close>

fun scan_selectors :: "jsstring \<Rightarrow> jsstring list \<Rightarrow> jsstring option option" where
  "scan_selectors html [] = Some None"
| "scan_selectors html (selector # rest) =
     (case extractBySelector html selector of
        None \<Rightarrow> None
      | Some c \<Rightarrow>
          if c \<noteq> [] \<and> 500 < length c then Some (Some c) else scan_selectors html rest)"

definition extractMainContent :: "jsstring \<Rightarrow> jsstring option" where
  "extractMainContent html =
     (case scan_selectors html contentSelectors of
        None \<Rightarrow> None
      | Some (Some c) \<Rightarrow> Some c
      | Some None \<Rightarrow>
          (case rsearch (element_re ''body'') [] html of
             Some (pre, ps, rest) \<Rightarrow> Some (ps ! 3)
           | None \<Rightarrow> Some html))"

section \<open>web-read.ts: the operation\<close>

text \<open>
  What the operation takes from outside the two files: \<open>urlProtocol url\<close> is the
  \<open>protocol\<close> of \<open>new URL(url)\<close>, \<open>None\<close> when the constructor throws; the caps and
  \<open>formatSize\<close> come from truncate.ts (see above).
\<close>

record deps =
  urlProtocol :: "jsstring \<Rightarrow> jsstring option"
  DEFAULT_MAX_BYTES :: nat
  DEFAULT_MAX_LINES :: nat
  formatSize :: "nat \<Rightarrow> jsstring"

datatype out_format = Markdown | PlainText

record truncation_info =
  ti_totalBytes :: nat
  ti_outputBytes :: nat
  ti_totalLines :: nat
  ti_outputLines :: nat

record read_details =
  rd_url :: jsstring
  rd_format :: out_format
  rd_title :: "jsstring option"
  rd_truncated :: bool
  rd_truncationInfo :: "truncation_info option"

text \<open>The value an operation resolves with; \<open>isError\<close> is false where the source leaves it out.\<close>

record 'd tool_result =
  res_text :: jsstring
  details :: 'd
  isError :: bool

definition truncation_note :: "deps \<Rightarrow> truncation_result \<Rightarrow> jsstring" where
  "truncation_note d tr =
     (if truncated tr then
        js ''\<newline>\<newline>[Content truncated: showing '' @ dec (outputLines tr) @ js '' of ''
        @ dec (totalLines tr) @ js '' lines ('' @ formatSize d (outputBytes tr) @ js '' of ''
        @ formatSize d (totalBytes tr) @ js '')]''
      else [])"

definition truncation_details :: "truncation_result \<Rightarrow> truncation_info option" where
  "truncation_details tr =
     (if truncated tr then
        Some \<lparr>ti_totalBytes = totalBytes tr, ti_outputBytes = outputBytes tr,
              ti_totalLines = totalLines tr, ti_outputLines = outputLines tr\<rparr>
      else None)"

definition read_result ::
  "deps \<Rightarrow> jsstring \<Rightarrow> out_format \<Rightarrow> jsstring option \<Rightarrow> jsstring \<Rightarrow> truncation_result
   \<Rightarrow> read_details tool_result" where
  "read_result d url fmt title preamble tr =
     \<lparr>res_text = preamble @ content tr @ truncation_note d tr,
      details = \<lparr>rd_url = url, rd_format = fmt, rd_title = title, rd_truncated = truncated tr,
                 rd_truncationInfo = truncation_details tr\<rparr>,
      isError = False\<rparr>"

text \<open>The page branch of the \<open>try\<close> block: from the body of an HTML response on.\<close>

definition read_page ::
  "deps \<Rightarrow> jsstring \<Rightarrow> out_format \<Rightarrow> jsstring option \<Rightarrow> jsstring
   \<Rightarrow> (js_error + read_details tool_result) option" where
  "read_page d url fmt selector html =
     (case (case selector of
              None \<Rightarrow> map_option Inr (extractMainContent html)
            | Some sel \<Rightarrow>
                if sel = [] then map_option Inr (extractMainContent html)
                else
                  (case extractBySelector html sel of
                     None \<Rightarrow> None
                   | Some c \<Rightarrow>
                       if c = [] then Some (Inl (Error (js ''No content found matching selector: '' @ sel)))
                       else Some (Inr c))) of
        None \<Rightarrow> None
      | Some (Inl err) \<Rightarrow> Some (Inl err)
      | Some (Inr contentHtml) \<Rightarrow>
          Some (Inr (read_result d url fmt (Some (extractTitle html))
            (if extractTitle html \<noteq> []
             then js ''# '' @ extractTitle html @ js ''\<newline>\<newline>Source: '' @ url @ js ''\<newline>\<newline>''
             else [])
            (truncateHead (DEFAULT_MAX_BYTES d) (DEFAULT_MAX_LINES d)
               (case fmt of Markdown \<Rightarrow> htmlToMarkdown contentHtml | PlainText \<Rightarrow> htmlToText contentHtml)))))"

text \<open>What happens to a response that \<open>fetchWithRetry\<close> returned.\<close>

definition read_response ::
  "deps \<Rightarrow> jsstring \<Rightarrow> out_format \<Rightarrow> jsstring option \<Rightarrow> response
   \<Rightarrow> (js_error + read_details tool_result) option" where
  "read_response d url fmt selector r =
     (if \<not> ok r then
        Some (Inl (Error (js ''Failed to fetch: '' @ dec (status r) @ js '' '' @ statusText r)))
      else
        (let ct = (case contentType r of None \<Rightarrow> [] | Some c \<Rightarrow> c) in
         if \<not> js_includes ct (js ''text/html'') \<and> \<not> js_includes ct (js ''application/xhtml'') then
           (if js_includes ct (js ''text/'') then
              (case body r of
                 Inl err \<Rightarrow> Some (Inl err)
               | Inr txt \<Rightarrow>
                   Some (Inr (read_result d url fmt None []
                     (truncateHead (DEFAULT_MAX_BYTES d) (DEFAULT_MAX_LINES d) txt))))
            else
              Some (Inl (Error (js ''Unsupported content type: '' @ ct
                @ js ''. This tool only supports HTML and text content.''))))
         else
           (case body r of
              Inl err \<Rightarrow> Some (Inl err)
            | Inr html \<Rightarrow> read_page d url fmt selector html)))"

text \<open>
  The \<open>try\<close> block of \<open>execute\<close>: the value returned or the error thrown, and the trace
  of the requests and waits.  \<open>None\<close> only when the selector is outside the model.
\<close>

definition webRead_try ::
  "deps \<Rightarrow> env \<Rightarrow> jsstring \<Rightarrow> out_format \<Rightarrow> jsstring option
   \<Rightarrow> ((js_error + read_details tool_result) \<times> trace) option" where
  "webRead_try d e url fmt selector =
     (case urlProtocol d url of
        None \<Rightarrow> Some (Inl (Error (js ''Invalid URL: '' @ url)), trace0)
      | Some protocol \<Rightarrow>
          if protocol \<noteq> js ''http:'' \<and> protocol \<noteq> js ''https:'' then
            Some (Inl (Error (js ''Unsupported protocol: '' @ protocol
                   @ js ''. Only http and https are allowed.'')), trace0)
          else
            (case fetchWithRetry e url 3 trace0 of
               (Inl err, t) \<Rightarrow> Some (Inl err, t)
             | (Inr r, t) \<Rightarrow> map_option (\<lambda>res. (res, t)) (read_response d url fmt selector r)))"

definition read_failure :: "jsstring \<Rightarrow> out_format \<Rightarrow> js_error \<Rightarrow> read_details tool_result" where
  "read_failure url fmt err =
     (if err_name err = js ''AbortError'' then
        \<lparr>res_text = js ''Request cancelled'',
         details = \<lparr>rd_url = url, rd_format = fmt, rd_title = None, rd_truncated = False,
                    rd_truncationInfo = None\<rparr>,
         isError = False\<rparr>
      else
        \<lparr>res_text = js ''Failed to read URL: '' @ err_message err,
         details = \<lparr>rd_url = url, rd_format = fmt, rd_title = None, rd_truncated = False,
                    rd_truncationInfo = None\<rparr>,
         isError = True\<rparr>)"

text \<open>\<open>execute\<close> of web-read: \<open>format ?? "markdown"\<close>, the \<open>try\<close> block, the \<open>catch\<close>.\<close>

definition webRead_execute ::
  "deps \<Rightarrow> env \<Rightarrow> jsstring \<Rightarrow> out_format option \<Rightarrow> jsstring option
   \<Rightarrow> (read_details tool_result \<times> trace) option" where
  "webRead_execute d e url format selector =
     (let outputFormat = (case format of None \<Rightarrow> Markdown | Some f \<Rightarrow> f) in
      case webRead_try d e url outputFormat selector of
        None \<Rightarrow> None
      | Some (Inr res, t) \<Rightarrow> Some (res, t)
      | Some (Inl err, t) \<Rightarrow> Some (read_failure url outputFormat err, t))"

section \<open>web-search.ts\<close>



















text \<open>Sample data for the concrete instances below.\<close>

definition demo_response :: "nat \<Rightarrow> response" where
  "demo_response st = \<lparr>status = st, statusText = [], contentType = None, body = Inr []\<rparr>"

definition demo_env :: "nat list \<Rightarrow> env" where
  "demo_env sts = \<lparr>net = (\<lambda>k url. Resolves (demo_response (sts ! k))), random = (\<lambda>k. 1 / 2)\<rparr>"


definition demo_deps :: "jsstring \<Rightarrow> deps" where
  "demo_deps protocol =
     \<lparr>urlProtocol = (\<lambda>url. Some protocol), DEFAULT_MAX_BYTES = 51200, DEFAULT_MAX_LINES = 2000,
      formatSize = (\<lambda>n. dec n @ js ''B'')\<rparr>"




section \<open>Properties of fetchWithRetry\<close>

lemma fetchLoop_first_other:
  assumes "attempt + k < maxRetries"
    and "\<forall>i<k. retried (net e (length (requests t) + i) url)"
    and "net e (length (requests t) + k) url = Resolves r"
    and "status r \<noteq> 429"
  shows "fst (fetchLoop e url maxRetries attempt lastError t) = Inr r \<and>
         requests (snd (fetchLoop e url maxRetries attempt lastError t)) =
           requests t @ replicate (Suc k) url"
  using assms
proof (induction k arbitrary: attempt lastError t)
  case 0
  then show ?case by (subst (1 2) fetchLoop.simps) simp
next
  case (Suc k)
  have lt: "attempt < maxRetries" using Suc.prems(1) by simp
  have r0: "retried (net e (length (requests t)) url)" using Suc.prems(2) by force
  show ?case
  proof (cases "net e (length (requests t)) url")
    case (Resolves r')
    with r0 have st: "status r' = 429" by (simp add: retried_def)
    let ?t = "t\<lparr>requests := requests t @ [url], draws := draws t + 1,
                    waits := waits t @ [2 ^ attempt * 1000 + random e (draws t) * 1000]\<rparr>"
    have step: "fetchLoop e url maxRetries attempt lastError t =
                fetchLoop e url maxRetries (attempt + 1) lastError ?t"
      by (subst fetchLoop.simps) (simp add: lt Resolves st)
    have "fst (fetchLoop e url maxRetries (attempt + 1) lastError ?t) = Inr r \<and>
         requests (snd (fetchLoop e url maxRetries (attempt + 1) lastError ?t)) =
           requests ?t @ replicate (Suc k) url"
      using Suc.prems by (intro Suc.IH) (auto simp: less_Suc_eq_0_disj)
    then show ?thesis by (simp add: step replicate_append_same)
  next
    case (Rejects err)
    let ?t = "t\<lparr>requests := requests t @ [url],
                  waits := waits t @ (if attempt < maxRetries - 1 then [2 ^ attempt * 500] else [])\<rparr>"
    have step: "fetchLoop e url maxRetries attempt lastError t =
                fetchLoop e url maxRetries (attempt + 1) (Some err) ?t"
      by (subst fetchLoop.simps) (simp add: lt Rejects)
    have rq: "requests ?t = requests t @ [url]" by simp
    have "fst (fetchLoop e url maxRetries (attempt + 1) (Some err) ?t) = Inr r \<and>
         requests (snd (fetchLoop e url maxRetries (attempt + 1) (Some err) ?t)) =
           requests ?t @ replicate (Suc k) url"
      using Suc.prems by (intro Suc.IH) (auto simp: less_Suc_eq_0_disj)
    then show ?thesis by (simp add: step replicate_append_same)
  qed
qed

lemma fetchLoop_retry_only:
  "Suc (length (requests t) + i) < length (requests (snd (fetchLoop e url maxRetries attempt lastError t)))
   \<Longrightarrow> retried (net e (length (requests t) + i) url)"
proof (induction e url maxRetries attempt lastError t arbitrary: i rule: fetchLoop.induct)
  case (1 e url maxRetries attempt lastError t)
  show ?case
  proof (cases "attempt < maxRetries")
    case False
    with "1.prems" show ?thesis by (subst (asm) fetchLoop.simps) simp
  next
    case lt: True
    show ?thesis
    proof (cases "net e (length (requests t)) url")
      case (Resolves r)
      show ?thesis
      proof (cases "status r = 429")
        case True
        let ?t = "(t\<lparr>requests := requests t @ [url], draws := draws t + 1,
                    waits := waits t @ [2 ^ attempt * 1000 + random e (draws t) * 1000]\<rparr>)"
        show ?thesis
        proof (cases i)
          case 0
          then show ?thesis by (simp add: retried_def Resolves True)
        next
          case (Suc j)
          have "Suc (length (requests ?t) + j) < length (requests (snd (fetchLoop e url maxRetries (attempt + 1) lastError ?t)))"
            using "1.prems" by (subst (asm) fetchLoop.simps) (simp add: lt Resolves True Suc)
          from "1.IH"(1)[OF lt Resolves True this] show ?thesis by (simp add: Suc)
        qed
      next
        case False
        with "1.prems" show ?thesis by (subst (asm) fetchLoop.simps) (simp add: lt Resolves)
      qed
    next
      case (Rejects err)
      let ?t = "t\<lparr>requests := requests t @ [url],
                  waits := waits t @ (if attempt < maxRetries - 1 then [2 ^ attempt * 500] else [])\<rparr>"
      have rq: "requests ?t = requests t @ [url]" by simp
      show ?thesis
      proof (cases i)
        case 0
        then show ?thesis by (simp add: retried_def Rejects)
      next
        case (Suc j)
        have "Suc (length (requests ?t) + j) < length (requests (snd (fetchLoop e url maxRetries (attempt + 1) (Some err) ?t)))"
          using "1.prems" by (subst (asm) fetchLoop.simps) (simp add: lt Rejects Suc)
        from "1.IH"(2)[OF lt Rejects this] show ?thesis by (simp add: Suc rq)
      qed
    qed
  qed
qed

text \<open>
  Claim C2.  With a budget of three attempts, the responses 429, 429, 200 make
  \<open>fetchWithRetry\<close> return the 200 response, and the responses 429, 429, 429 make it
  throw the error raised when the budget is used up (\<open>Max retries exceeded\<close>), after
  three requests.  After the 429 of attempt \<open>k\<close> it waits \<open>2 ^ k * 1000\<close> ms plus
  \<open>Math.random() * 1000\<close> ms, a jitter below 1000 ms.
\<close>

theorem fetchWithRetry_rate_limited:
  assumes "net e 0 url = Resolves r0" and "status r0 = 429"
    and "net e 1 url = Resolves r1" and "status r1 = 429"
    and "net e 2 url = Resolves r2"
    and "\<forall>k. 0 \<le> random e k \<and> random e k < 1"
  shows "(status r2 = 200 \<longrightarrow>
            fetchWithRetry e url 3 trace0 =
              (Inr r2,
               \<lparr>requests = [url, url, url], draws = 2,
                waits = [2 ^ 0 * 1000 + random e 0 * 1000, 2 ^ 1 * 1000 + random e 1 * 1000]\<rparr>))
       \<and> (status r2 = 429 \<longrightarrow>
            fetchWithRetry e url 3 trace0 =
              (Inl (Error (js ''Max retries exceeded'')),
               \<lparr>requests = [url, url, url], draws = 3,
                waits = [2 ^ 0 * 1000 + random e 0 * 1000, 2 ^ 1 * 1000 + random e 1 * 1000,
                         2 ^ 2 * 1000 + random e 2 * 1000]\<rparr>))
       \<and> (\<forall>k. 0 \<le> random e k * 1000 \<and> random e k * 1000 < 1000)"
  using assms
  by (auto simp add: fetchWithRetry_def fetchLoop.simps trace0_def numeral_3_eq_3 numeral_2_eq_2)

theorem fetchWithRetry_rate_limited_witness:
  "fetchWithRetry (demo_env [429, 429, 200]) (js ''http://a.example/'') 3 trace0 =
     (Inr (demo_response 200),
      \<lparr>requests = [js ''http://a.example/'', js ''http://a.example/'', js ''http://a.example/''],
       draws = 2, waits = [1500, 2500]\<rparr>)
   \<and> fetchWithRetry (demo_env [429, 429, 429]) (js ''http://a.example/'') 3 trace0 =
     (Inl (Error (js ''Max retries exceeded'')),
      \<lparr>requests = [js ''http://a.example/'', js ''http://a.example/'', js ''http://a.example/''],
       draws = 3, waits = [1500, 2500, 4500]\<rparr>)"
  using fetchWithRetry_rate_limited [of "demo_env [429, 429, 200]" "js ''http://a.example/''"
      "demo_response 429" "demo_response 429" "demo_response 200"]
    fetchWithRetry_rate_limited [of "demo_env [429, 429, 429]" "js ''http://a.example/''"
      "demo_response 429" "demo_response 429" "demo_response 429"]
  by (simp add: demo_env_def demo_response_def)

text \<open>
  Claim C9.  \<open>fetchWithRetry\<close> returns the first response whose status is not 429 as it
  is, whatever that status, and sends no request after it; a further request is sent
  only after a 429 or after a rejected \<open>fetch\<close>.
\<close>

theorem fetchWithRetry_first_other_status:
  assumes "k < maxRetries"
    and "\<forall>i<k. retried (net e i url)"
    and "net e k url = Resolves r"
    and "status r \<noteq> 429"
  shows "fst (fetchWithRetry e url maxRetries trace0) = Inr r
       \<and> requests (snd (fetchWithRetry e url maxRetries trace0)) = replicate (Suc k) url
       \<and> (\<forall>i. Suc i < length (requests (snd (fetchWithRetry e url maxRetries trace0)))
              \<longrightarrow> retried (net e i url))"
proof -
  have a: "fst (fetchLoop e url maxRetries 0 None trace0) = Inr r \<and>
           requests (snd (fetchLoop e url maxRetries 0 None trace0)) =
             requests trace0 @ replicate (Suc k) url"
    using assms by (intro fetchLoop_first_other) (simp_all add: trace0_def)
  have b: "retried (net e i url)"
    if "Suc i < length (requests (snd (fetchLoop e url maxRetries 0 None trace0)))" for i
    using fetchLoop_retry_only [of trace0 i e url maxRetries 0 None] that
    by (simp add: trace0_def)
  show ?thesis
    using a b by (simp add: fetchWithRetry_def trace0_def)
qed

theorem fetchWithRetry_first_other_status_witness:
  "fst (fetchWithRetry (demo_env [429, 500, 200]) (js ''http://a.example/'') 3 trace0) =
     Inr (demo_response 500)
   \<and> requests (snd (fetchWithRetry (demo_env [429, 500, 200]) (js ''http://a.example/'') 3 trace0)) =
     [js ''http://a.example/'', js ''http://a.example/'']"
  using fetchWithRetry_first_other_status [of 1 3 "demo_env [429, 500, 200]"
      "js ''http://a.example/''" "demo_response 500"]
  by (simp add: demo_env_def demo_response_def retried_def numeral_2_eq_2)

section \<open>Properties of truncateHead\<close>

lemma split_from_nonempty: "split_from sep cur s \<noteq> []"
  by (induction s arbitrary: cur) auto

lemma join_Cons: "ls \<noteq> [] \<Longrightarrow> join sep (l # ls) = l @ sep @ join sep ls"
  by (cases ls) auto

lemma join_split_from: "join [sep] (split_from sep cur s) = cur @ s"
  by (induction s arbitrary: cur) (auto simp: join_Cons split_from_nonempty)

lemma join_split_lines: "join [10] (split_lines s) = s"
  by (simp add: split_lines_def join_split_from)

lemma join_append:
  "xs \<noteq> [] \<Longrightarrow> ys \<noteq> [] \<Longrightarrow> join sep (xs @ ys) = join sep xs @ sep @ join sep ys"
proof (induction xs)
  case Nil
  then show ?case by simp
next
  case (Cons x xs)
  then show ?case by (cases xs) (auto simp: join_Cons)
qed

lemma utf8_len_newline: "utf8_len (a @ 10 # b) = utf8_len a + 1 + utf8_len b"
proof (induction a rule: utf8_len.induct)
  case 1
  show ?case by (cases b) (auto simp: unit_bytes_def is_high_def)
next
  case (2 x)
  show ?case by (cases b) (auto simp: unit_bytes_def is_high_def is_low_def)
next
  case (3 x y r)
  then show ?case by auto
qed

lemma utf8_len_join_prefix: "utf8_len (join [10] xs) \<le> utf8_len (join [10] (xs @ ys))"
proof (cases "xs = [] \<or> ys = []")
  case True
  then show ?thesis by auto
next
  case False
  then show ?thesis by (simp add: join_append utf8_len_newline)
qed

lemma take_fitting_prefix: "\<exists>rest. kept @ ls = take_fitting mb ml kept ls @ rest"
proof (induction ls arbitrary: kept)
  case Nil
  show ?case by simp
next
  case (Cons l ls)
  from Cons [of "kept @ [l]"] show ?case by auto
qed

lemma take_fitting_lines:
  "length kept \<le> ml \<Longrightarrow> length (take_fitting mb ml kept ls) \<le> ml"
  by (induction ls arbitrary: kept) auto

lemma take_fitting_bytes:
  "utf8_len (join [10] kept) \<le> mb \<Longrightarrow> utf8_len (join [10] (take_fitting mb ml kept ls)) \<le> mb"
  by (induction ls arbitrary: kept) auto

text \<open>
  Claim C1.  For every text and every pair of caps, the result of \<open>truncateHead\<close> has
  \<open>outputBytes \<le> totalBytes\<close> and \<open>outputLines \<le> totalLines\<close>, and \<open>truncated\<close> holds
  exactly when one of the two is a strict inequality.
\<close>

theorem truncateHead_invariant:
  "outputBytes (truncateHead mb ml s) \<le> totalBytes (truncateHead mb ml s)
   \<and> outputLines (truncateHead mb ml s) \<le> totalLines (truncateHead mb ml s)
   \<and> truncated (truncateHead mb ml s) =
       (outputBytes (truncateHead mb ml s) < totalBytes (truncateHead mb ml s)
        \<or> outputLines (truncateHead mb ml s) < totalLines (truncateHead mb ml s))"
proof (cases "length (split_lines s) \<le> ml \<and> utf8_len s \<le> mb")
  case True
  then show ?thesis by (simp add: truncateHead_def)
next
  case False
  let ?kept = "take_fitting mb ml [] (split_lines s)"
  obtain rest where rest: "split_lines s = ?kept @ rest"
    using take_fitting_prefix [of "[]" "split_lines s" mb ml] by auto
  have lines: "length ?kept \<le> length (split_lines s)"
    using arg_cong [OF rest, of length] by simp
  have "utf8_len (join [10] ?kept) \<le> utf8_len (join [10] (?kept @ rest))"
    by (rule utf8_len_join_prefix)
  then have bytes: "utf8_len (join [10] ?kept) \<le> utf8_len s"
    using rest join_split_lines [of s] by simp
  have capl: "length ?kept \<le> ml" by (rule take_fitting_lines) simp
  have capb: "utf8_len (join [10] ?kept) \<le> mb" by (rule take_fitting_bytes) simp
  have strict: "utf8_len (join [10] ?kept) < utf8_len s \<or> length ?kept < length (split_lines s)"
    using False capl capb by linarith
  show ?thesis
    using False lines bytes strict by (simp add: truncateHead_def)
qed

section \<open>Properties of the converters\<close>

lemmas regex_eval = js_def lit_def notc_def onec_def chars_def anychar_def whitespace_def dot_def
  digit_def lit_at_def canonicalize_def ascii_upper_def ascii_lower_def replace_all.simps
  match_all.simps replace_lit_def rewrite_chain_def element_re_def paired_re_def trim_def is_space_def

lemmas convert_eval = decodeEntities_def tag_re_def stripTags_def br_re_def clean_whitespace_def
  htmlToText_def htmlToMarkdown_def link_re_def link_md_def img_alt_re_def img_re_def heading_md_def
  cell_re_def blockquote_md_def row_md_def table_md_def

text \<open>
  Claim C6.  The fragment \<open><p>Hello <b>world</b></p>\<close> converts to the markdown
  \<open>Hello **world**\<close> and to the text \<open>Hello world\<close>.
\<close>

theorem convert_hello_world:
  "htmlToMarkdown (js ''<p>Hello <b>world</b></p>'') = js ''Hello **world**''
   \<and> htmlToText (js ''<p>Hello <b>world</b></p>'') = js ''Hello world''"
  by (simp add: regex_eval convert_eval)

section \<open>Properties of the two operations\<close>

lemma Error_not_abort: "err_name (Error msg) \<noteq> js ''AbortError''"
  by (simp add: Error_def js_def)

text \<open>
  Claim C7.  When the scheme of the URL is neither http nor https, the page-read
  operation fails with the unsupported-protocol error and no request has been issued.
\<close>

theorem webRead_unsupported_protocol:
  assumes "urlProtocol d url = Some protocol"
    and "protocol \<noteq> js ''http:''" and "protocol \<noteq> js ''https:''"
  shows "\<exists>res t. webRead_execute d e url format selector = Some (res, t)
           \<and> res_text res = js ''Failed to read URL: Unsupported protocol: '' @ protocol
                               @ js ''. Only http and https are allowed.''
           \<and> isError res
           \<and> requests t = [] \<and> waits t = []"
  using assms
  by (simp add: webRead_execute_def webRead_try_def read_failure_def Error_not_abort trace0_def)
     (simp add: Error_def js_def)

theorem webRead_unsupported_protocol_witness:
  "webRead_execute (demo_deps (js ''ftp:'')) (demo_env [200]) (js ''ftp://files.example/a.txt'') None None =
     Some (\<lparr>res_text = js ''Failed to read URL: Unsupported protocol: ftp:. Only http and https are allowed.'',
             details = \<lparr>rd_url = js ''ftp://files.example/a.txt'', rd_format = Markdown, rd_title = None,
                        rd_truncated = False, rd_truncationInfo = None\<rparr>,
             isError = True\<rparr>, trace0)"
  using webRead_unsupported_protocol [of "demo_deps (js ''ftp:'')" "js ''ftp://files.example/a.txt''"
     "js ''ftp:''" "demo_env [200]" None None]
  by (simp add: demo_deps_def js_def webRead_execute_def webRead_try_def read_failure_def Error_def trace0_def)

















section \<open>Properties of the content locator\<close>






























end
